theory Spec2Isabelle
  imports Main "HOL-Library.Sublist"
begin

section \<open>JavaScript strings\<close>

text \<open>
  A JavaScript string is a sequence of UTF-16 code units; \<open>length\<close>, \<open>startsWith\<close>,
  \<open>trim\<close> and the regular expression of the validator all work on code units. The model
  takes the code units of the Latin-1 range U+0000..U+00FF, one \<^typ>\<open>char\<close> each, so a
  string is a \<^typ>\<open>string\<close>. On this range \<open>trim\<close> and \<open>toLowerCase\<close> are closed: no
  Latin-1 character has a lower-case form outside the range, and none of the
  context-sensitive case rules applies.
\<close>

definition isWhiteSpace :: "char \<Rightarrow> bool" where
  \<comment> \<open>ECMAScript WhiteSpace and LineTerminator below U+0100: TAB, LF, VT, FF, CR, SP, NBSP.\<close>
  "isWhiteSpace c = (of_char c \<in> {9, 10, 11, 12, 13, 32, 160 :: nat})"

definition trim :: "string \<Rightarrow> string" where
  \<comment> \<open>\<open>String.prototype.trim\<close>: white space removed from both ends.\<close>
  "trim s = rev (dropWhile isWhiteSpace (rev (dropWhile isWhiteSpace s)))"

definition isUpperAscii :: "char \<Rightarrow> bool" where
  "isUpperAscii c = (65 \<le> (of_char c :: nat) \<and> (of_char c :: nat) \<le> 90)"

definition toLowerChar :: "char \<Rightarrow> char" where
  \<comment> \<open>Unicode simple lower-case mapping below U+0100: A..Z, and U+00C0..U+00DE
      without the multiplication sign U+00D7, move up by 32.\<close>
  "toLowerChar c =
     (let n = (of_char c :: nat)
      in if (65 \<le> n \<and> n \<le> 90) \<or> (192 \<le> n \<and> n \<le> 222 \<and> n \<noteq> 215)
         then char_of (n + 32) else c)"

definition toLowerCase :: "string \<Rightarrow> string" where
  "toLowerCase s = map toLowerChar s"

definition startsWith :: "string \<Rightarrow> string \<Rightarrow> bool" where
  \<comment> \<open>\<open>url.startsWith(p)\<close>\<close>
  "startsWith s p = prefix p s"

section \<open>Sanitizer\<close>

definition sanitizeEmail :: "string \<Rightarrow> string" where
  "sanitizeEmail email = toLowerCase (trim email)"

section \<open>Data model\<close>

text \<open>
  \<open>auth.types.ts\<close>. The interfaces \<open>LoginCredentials\<close> and \<open>LoginFormValues\<close> have the
  same three fields and are one structural type. Fields of the other interfaces carry a
  prefix, since several interfaces share the names \<open>message\<close>, \<open>errors\<close> and \<open>touched\<close>.
  An optional field is an \<open>option\<close>. The \<open>details\<close> of an \<open>AuthError\<close>, a map to values
  of unknown type that the hook never reads, is a list of keys with the values as text;
  \<open>expiresAt\<close>, a time stamp the hook never reads either, is an integer.
\<close>

record LoginFormValues =
  email :: string
  password :: string
  rememberMe :: bool

type_synonym LoginCredentials = LoginFormValues

datatype field = Email | Password | RememberMe

datatype ValidationErrorType = Required | Format | MinLength | MaxLength | Custom

record FieldError =
  fe_field :: field
  fe_message :: string
  fe_type :: ValidationErrorType

record ValidationState =
  vs_errors :: "FieldError list"
  vs_isValid :: bool
  vs_touched :: "field \<rightharpoonup> bool"

datatype AuthErrorCode =
  INVALID_CREDENTIALS | ACCOUNT_LOCKED | ACCOUNT_DISABLED | TOO_MANY_ATTEMPTS
  | SESSION_EXPIRED | NETWORK_ERROR | SERVER_ERROR | VALIDATION_ERROR

record AuthError =
  ae_code :: AuthErrorCode
  ae_message :: string
  ae_details :: "(string \<times> string) list option"

datatype UserRole = Admin | User | Guest

record AuthenticatedUser =
  user_id :: string
  user_email :: string
  user_name :: string
  user_role :: UserRole
  user_avatarUrl :: "string option"

record LoginResponse =
  resp_token :: string
  resp_refreshToken :: string
  resp_user :: AuthenticatedUser
  resp_redirectUrl :: "string option"
  resp_expiresAt :: int

datatype SubmissionState = Idle | Submitting | Success | Error

section \<open>Field and form validation\<close>

text \<open>
  \<open>login.validation.ts\<close>. The regular expression
  \<^verbatim>\<open>/^[a-zA-Z0-9._%+-]+@[a-zA-Z0-9.-]+\.[a-zA-Z]{2,}$/\<close>
  is a sequence of single characters and of character classes repeated at least \<open>n\<close>
  times, anchored at both ends; \<open>regexTest\<close> is \<open>RegExp.prototype.test\<close> for regular
  expressions of this shape (it tries the repetition both ways, so it accepts exactly
  when some way of splitting the input matches).
\<close>

definition inRange :: "char \<Rightarrow> char \<Rightarrow> char \<Rightarrow> bool" where
  "inRange lo hi c = ((of_char lo :: nat) \<le> of_char c \<and> (of_char c :: nat) \<le> of_char hi)"

definition isAsciiLetter :: "char \<Rightarrow> bool" where
  \<comment> \<open>\<open>[a-zA-Z]\<close>\<close>
  "isAsciiLetter c = (inRange CHR ''a'' CHR ''z'' c \<or> inRange CHR ''A'' CHR ''Z'' c)"

definition isLocalChar :: "char \<Rightarrow> bool" where
  \<comment> \<open>\<open>[a-zA-Z0-9._%+-]\<close>\<close>
  "isLocalChar c =
     (inRange CHR ''a'' CHR ''z'' c \<or> inRange CHR ''A'' CHR ''Z'' c \<or> inRange CHR ''0'' CHR ''9'' c
      \<or> c = CHR ''.'' \<or> c = CHR ''_'' \<or> c = CHR ''%'' \<or> c = CHR ''+'' \<or> c = CHR ''-'')"

definition isDomainChar :: "char \<Rightarrow> bool" where
  \<comment> \<open>\<open>[a-zA-Z0-9.-]\<close>\<close>
  "isDomainChar c =
     (inRange CHR ''a'' CHR ''z'' c \<or> inRange CHR ''A'' CHR ''Z'' c \<or> inRange CHR ''0'' CHR ''9'' c
      \<or> c = CHR ''.'' \<or> c = CHR ''-'')"

datatype regexItem =
  Lit char  \<comment> \<open>one given character\<close>
  | AtLeast nat "char \<Rightarrow> bool"  \<comment> \<open>\<open>[class]{n,}\<close>; \<open>[class]+\<close> is \<open>AtLeast 1\<close>\<close>

fun regexTest :: "regexItem list \<Rightarrow> string \<Rightarrow> bool" where
  "regexTest [] s = (s = [])"
| "regexTest (Lit c # r) [] = False"
| "regexTest (Lit c # r) (x # xs) = (x = c \<and> regexTest r xs)"
| "regexTest (AtLeast (Suc n) C # r) [] = False"
| "regexTest (AtLeast (Suc n) C # r) (x # xs) = (C x \<and> regexTest (AtLeast n C # r) xs)"
| "regexTest (AtLeast 0 C # r) [] = regexTest r []"
| "regexTest (AtLeast 0 C # r) (x # xs) =
     ((C x \<and> regexTest (AtLeast 0 C # r) xs) \<or> regexTest r (x # xs))"

definition EMAIL_REGEX :: "regexItem list" where
  "EMAIL_REGEX =
     [AtLeast 1 isLocalChar, Lit CHR ''@'', AtLeast 1 isDomainChar, Lit CHR ''.'',
      AtLeast 2 isAsciiLetter]"

record ValidationRule =
  rule_test :: "string \<Rightarrow> bool"
  rule_message :: string
  rule_type :: ValidationErrorType

definition emailRules :: "ValidationRule list" where
  "emailRules =
     [\<lparr>rule_test = (\<lambda>v. length (trim v) > 0),
       rule_message = ''Email is required'', rule_type = Required\<rparr>,
      \<lparr>rule_test = (\<lambda>v. regexTest EMAIL_REGEX (trim v)),
       rule_message = ''Please enter a valid email address'', rule_type = Format\<rparr>,
      \<lparr>rule_test = (\<lambda>v. length (trim v) \<le> 254),
       rule_message = ''Email must not exceed 254 characters'', rule_type = MaxLength\<rparr>]"

definition passwordRules :: "ValidationRule list" where
  "passwordRules =
     [\<lparr>rule_test = (\<lambda>v. length v > 0),
       rule_message = ''Password is required'', rule_type = Required\<rparr>,
      \<lparr>rule_test = (\<lambda>v. length v \<ge> 8),
       rule_message = ''Password must be at least 8 characters'', rule_type = MinLength\<rparr>,
      \<lparr>rule_test = (\<lambda>v. length v \<le> 128),
       rule_message = ''Password must not exceed 128 characters'', rule_type = MaxLength\<rparr>]"

fun firstFailure :: "field \<Rightarrow> ValidationRule list \<Rightarrow> string \<Rightarrow> FieldError option" where
  \<comment> \<open>the \<open>for (const rule of rules)\<close> loop of \<open>validateField\<close>\<close>
  "firstFailure f [] v = None"
| "firstFailure f (rule # rules) v =
     (if \<not> rule_test rule v
      then Some \<lparr>fe_field = f, fe_message = rule_message rule, fe_type = rule_type rule\<rparr>
      else firstFailure f rules v)"

definition validateField :: "field \<Rightarrow> string \<Rightarrow> FieldError option" where
  "validateField f v =
     (let rules = (if f = Email then emailRules else if f = Password then passwordRules else [])
      in firstFailure f rules v)"

definition pushIfError :: "FieldError list \<Rightarrow> FieldError option \<Rightarrow> FieldError list" where
  \<comment> \<open>\<open>if (error) { errors.push(error); }\<close>\<close>
  "pushIfError es r = (case r of None \<Rightarrow> es | Some e \<Rightarrow> es @ [e])"

definition validateLoginForm :: "LoginFormValues \<Rightarrow> ValidationState" where
  "validateLoginForm vals =
     (let errors0 = [];
          emailError = validateField Email (email vals);
          errors1 = pushIfError errors0 emailError;
          passwordError = validateField Password (password vals);
          errors2 = pushIfError errors1 passwordError
      in \<lparr>vs_errors = errors2, vs_isValid = (length errors2 = 0), vs_touched = Map.empty\<rparr>)"

definition canSubmitForm :: "LoginFormValues \<Rightarrow> bool \<Rightarrow> bool" where
  "canSubmitForm vals isSubmitting =
     (if isSubmitting then False else vs_isValid (validateLoginForm vals))"

section \<open>Redirect guard\<close>

text \<open>\<open>auth.service.ts\<close>.\<close>

definition allowedPaths :: "string list" where
  "allowedPaths = [''/dashboard'', ''/profile'', ''/settings'', ''/'']"

definition isValidRedirectUrl :: "string \<Rightarrow> bool" where
  "isValidRedirectUrl url =
     (if url = [] \<or> length (trim url) = 0 then False
      else if startsWith url ''http://'' \<or> startsWith url ''https://'' \<or> startsWith url ''//''
        then False
      else if startsWith url ''javascript:'' \<or> startsWith url ''data:'' then False
      else if \<not> startsWith url ''/'' then False
      else list_ex (\<lambda>path. url = path \<or> startsWith url (path @ ''/'')) allowedPaths)"

definition getSafeRedirectUrl :: "string option \<Rightarrow> string option \<Rightarrow> string" where
  \<comment> \<open>The candidate may be \<open>undefined\<close>; an omitted default is \<open>'/dashboard'\<close>. An empty
      candidate is falsy, so \<open>redirectUrl &&\<close> fails on it as on \<open>undefined\<close>.\<close>
  "getSafeRedirectUrl candidate defaultArg =
     (let defaultUrl = (case defaultArg of None \<Rightarrow> ''/dashboard'' | Some d \<Rightarrow> d)
      in case candidate of
           None \<Rightarrow> defaultUrl
         | Some u \<Rightarrow> if u \<noteq> [] \<and> isValidRedirectUrl u then u else defaultUrl)"

section \<open>Login submission state machine\<close>

text \<open>
  \<open>useLogin.ts\<close>. The hook's state is the five \<open>useState\<close> cells and the
  \<open>isSubmittingRef\<close> flag. Each handler runs to completion on the state of the latest
  render, so a handler is a function from state to state. \<open>handleSubmit\<close> is an
  \<open>async\<close> function: \<open>handleSubmit\<close> below is its synchronous part, up to the
  \<open>await\<close> of \<open>login\<close>; \<open>loginResolved\<close> and \<open>loginRejected\<close> are its continuations
  (the rest of the \<open>try\<close>, the \<open>catch\<close>, and the \<open>finally\<close> after either).

  The authentication client is outside the hook. What the hook does to it and to the
  caller's callbacks is recorded in the state: \<open>loginCalls\<close> lists every call of
  \<open>login\<close> with its credentials, \<open>pending\<close> the calls not yet settled, and
  \<open>onSuccessCalls\<close>, \<open>onErrorCalls\<close> the arguments the callbacks were invoked with.
  Callbacks are taken to return normally. \<open>e.preventDefault()\<close> acts on the browser
  event only and is left out. The options of \<open>useLogin\<close> are those of the session, after
  their defaults; a callback is known by whether the caller supplied it.
\<close>

record UseLoginOptions =
  onSuccess :: bool  \<comment> \<open>whether the caller supplied the callback\<close>
  onError :: bool
  validateOnChange :: bool
  validateOnBlur :: bool

definition defaultOptions :: UseLoginOptions where
  \<comment> \<open>\<open>useLogin()\<close>: no callbacks, \<open>validateOnChange = false\<close>, \<open>validateOnBlur = true\<close>\<close>
  "defaultOptions =
     \<lparr>onSuccess = False, onError = False, validateOnChange = False, validateOnBlur = True\<rparr>"

record LoginState =
  formValues :: LoginFormValues  \<comment> \<open>the \<open>values\<close> cell\<close>
  errors :: "FieldError list"
  touched :: "field \<rightharpoonup> bool"
  submissionState :: SubmissionState
  authError :: "AuthError option"
  isSubmittingRef :: bool
  pending :: "LoginCredentials list"
  loginCalls :: "LoginCredentials list"
  onSuccessCalls :: "LoginResponse list"
  onErrorCalls :: "AuthError list"

definition INITIAL_FORM_VALUES :: LoginFormValues where
  "INITIAL_FORM_VALUES = \<lparr>email = '''', password = '''', rememberMe = False\<rparr>"

definition initialState :: LoginState where
  "initialState =
     \<lparr>formValues = INITIAL_FORM_VALUES, errors = [], touched = Map.empty,
      submissionState = Idle, authError = None, isSubmittingRef = False,
      pending = [], loginCalls = [], onSuccessCalls = [], onErrorCalls = []\<rparr>"

text \<open>
  The form calls \<open>handleChange\<close> with the text of the input for \<open>email\<close> and
  \<open>password\<close> and with the checkbox's boolean for \<open>rememberMe\<close>, as the type
  \<open>LoginFormValues\<close> of the stored values requires; an \<open>input\<close> is such a pair of field
  and value. \<open>typeof value === 'string'\<close> holds for the first two.
\<close>

datatype input = EmailInput string | PasswordInput string | RememberMeInput bool

fun inputField :: "input \<Rightarrow> field" where
  "inputField (EmailInput v) = Email"
| "inputField (PasswordInput v) = Password"
| "inputField (RememberMeInput b) = RememberMe"

fun setValue :: "input \<Rightarrow> LoginFormValues \<Rightarrow> LoginFormValues" where
  \<comment> \<open>\<open>{...prev, [field]: field === 'email' && typeof value === 'string'
        ? sanitizeEmail(value) : value}\<close>\<close>
  "setValue (EmailInput v) prev = prev\<lparr>email := sanitizeEmail v\<rparr>"
| "setValue (PasswordInput v) prev = prev\<lparr>password := v\<rparr>"
| "setValue (RememberMeInput b) prev = prev\<lparr>rememberMe := b\<rparr>"

fun stringValue :: "input \<Rightarrow> string option" where
  \<comment> \<open>the value when \<open>typeof value === 'string'\<close>\<close>
  "stringValue (EmailInput v) = Some v"
| "stringValue (PasswordInput v) = Some v"
| "stringValue (RememberMeInput b) = None"

definition replaceFieldError :: "field \<Rightarrow> FieldError option \<Rightarrow> FieldError list \<Rightarrow> FieldError list" where
  \<comment> \<open>\<open>const filtered = prev.filter((err) => err.field !== field);
        return fieldError ? [...filtered, fieldError] : filtered;\<close>\<close>
  "replaceFieldError f fieldError prev =
     (let filtered = filter (\<lambda>err. fe_field err \<noteq> f) prev
      in case fieldError of Some e \<Rightarrow> filtered @ [e] | None \<Rightarrow> filtered)"

definition handleChange :: "UseLoginOptions \<Rightarrow> input \<Rightarrow> LoginState \<Rightarrow> LoginState" where
  "handleChange opts inp s =
     (let s1 = s\<lparr>formValues := setValue inp (formValues s)\<rparr>;
          s2 = (if authError s \<noteq> None then s1\<lparr>authError := None\<rparr> else s1)
      in case stringValue inp of
           Some v \<Rightarrow>
             if validateOnChange opts
             then s2\<lparr>errors := replaceFieldError (inputField inp)
                                  (validateField (inputField inp) v) (errors s)\<rparr>
             else s2
         | None \<Rightarrow>
             if validateOnChange opts
             then s2\<lparr>errors := filter (\<lambda>err. fe_field err \<noteq> inputField inp) (errors s)\<rparr>
             else s2)"

fun fieldString :: "LoginFormValues \<Rightarrow> field \<Rightarrow> string option" where
  \<comment> \<open>\<open>values[field]\<close> when it is a string\<close>
  "fieldString vals Email = Some (email vals)"
| "fieldString vals Password = Some (password vals)"
| "fieldString vals RememberMe = None"

definition handleBlur :: "UseLoginOptions \<Rightarrow> field \<Rightarrow> LoginState \<Rightarrow> LoginState" where
  "handleBlur opts f s =
     (let s1 = s\<lparr>touched := (touched s)(f \<mapsto> True)\<rparr>
      in if validateOnBlur opts
         then (case fieldString (formValues s) f of
                 Some v \<Rightarrow> s1\<lparr>errors := replaceFieldError f (validateField f v) (errors s)\<rparr>
               | None \<Rightarrow> s1)
         else s1)"

definition handleSubmit :: "UseLoginOptions \<Rightarrow> LoginState \<Rightarrow> LoginState" where
  "handleSubmit opts s =
     (if isSubmittingRef s then s
      else
        let validation = validateLoginForm (formValues s);
            s1 = s\<lparr>errors := vs_errors validation,
                   touched := [Email \<mapsto> True, Password \<mapsto> True, RememberMe \<mapsto> True]\<rparr>
        in if \<not> vs_isValid validation then s1\<lparr>submissionState := Error\<rparr>
           else
             let credentials = \<lparr>email = email (formValues s), password = password (formValues s),
                                rememberMe = rememberMe (formValues s)\<rparr>
             in s1\<lparr>isSubmittingRef := True, submissionState := Submitting, authError := None,
                   loginCalls := loginCalls s @ [credentials],
                   pending := pending s @ [credentials]\<rparr>)"

definition settle :: "nat \<Rightarrow> 'a list \<Rightarrow> 'a list" where
  \<comment> \<open>the pending calls without the one at index \<open>i\<close>\<close>
  "settle i xs = take i xs @ drop (Suc i) xs"

definition loginResolved :: "UseLoginOptions \<Rightarrow> nat \<Rightarrow> LoginResponse \<Rightarrow> LoginState \<Rightarrow> LoginState" where
  "loginResolved opts i response s =
     s\<lparr>submissionState := Success,
       onSuccessCalls := (if onSuccess opts then onSuccessCalls s @ [response] else onSuccessCalls s),
       isSubmittingRef := False,
       pending := settle i (pending s)\<rparr>"

definition loginRejected :: "UseLoginOptions \<Rightarrow> nat \<Rightarrow> AuthError \<Rightarrow> LoginState \<Rightarrow> LoginState" where
  "loginRejected opts i authErr s =
     s\<lparr>authError := Some authErr,
       submissionState := Error,
       onErrorCalls := (if onError opts then onErrorCalls s @ [authErr] else onErrorCalls s),
       isSubmittingRef := False,
       pending := settle i (pending s)\<rparr>"

definition resetForm :: "LoginState \<Rightarrow> LoginState" where
  "resetForm s =
     s\<lparr>formValues := INITIAL_FORM_VALUES, errors := [], touched := Map.empty,
       submissionState := Idle, authError := None, isSubmittingRef := False\<rparr>"

definition canSubmit :: "LoginState \<Rightarrow> bool" where
  "canSubmit s = canSubmitForm (formValues s) (submissionState s = Submitting)"

text \<open>
  The events of a form session: the four handlers, and the settlement of the pending
  call at index \<open>i\<close> by the authentication client. A settlement of a call that is not
  pending does not happen; \<open>step\<close> leaves the state as it is there.
\<close>

datatype event =
  Change input | Blur field | Submit | Reset
  | Resolve nat LoginResponse | Reject nat AuthError

fun step :: "UseLoginOptions \<Rightarrow> LoginState \<Rightarrow> event \<Rightarrow> LoginState" where
  "step opts s (Change inp) = handleChange opts inp s"
| "step opts s (Blur f) = handleBlur opts f s"
| "step opts s Submit = handleSubmit opts s"
| "step opts s Reset = resetForm s"
| "step opts s (Resolve i response) =
     (if i < length (pending s) then loginResolved opts i response s else s)"
| "step opts s (Reject i authErr) =
     (if i < length (pending s) then loginRejected opts i authErr s else s)"

definition run :: "UseLoginOptions \<Rightarrow> event list \<Rightarrow> LoginState" where
  \<comment> \<open>the state of a session after the events, from the initial render\<close>
  "run opts evs = foldl (step opts) initialState evs"

fun resetsWhenSettled :: "UseLoginOptions \<Rightarrow> LoginState \<Rightarrow> event list \<Rightarrow> bool" where
  \<comment> \<open>every \<open>Reset\<close> of the trace is taken when no call is pending\<close>
  "resetsWhenSettled opts s [] = True"
| "resetsWhenSettled opts s (ev # evs) =
     ((ev = Reset \<longrightarrow> pending s = []) \<and> resetsWhenSettled opts (step opts s ev) evs)"

definition onePending :: "LoginState \<Rightarrow> bool" where
  \<comment> \<open>the flag is set exactly when a call is pending, and then one call is\<close>
  "onePending s = (length (pending s) = (if isSubmittingRef s then 1 else 0))"

section \<open>Properties of the string operations\<close>

lemma toLowerChar_idem: "toLowerChar (toLowerChar c) = toLowerChar c"
  by (auto simp: toLowerChar_def Let_def)

lemma isWhiteSpace_toLowerChar: "isWhiteSpace (toLowerChar c) = isWhiteSpace c"
  by (auto simp: toLowerChar_def isWhiteSpace_def Let_def)

lemma not_upper_toLowerChar: "\<not> isUpperAscii (toLowerChar c)"
  by (auto simp: toLowerChar_def isUpperAscii_def Let_def)

lemma toLowerCase_idem: "toLowerCase (toLowerCase s) = toLowerCase s"
  by (simp add: toLowerCase_def toLowerChar_idem)

lemma dropWhile_ws_toLowerCase:
  "dropWhile isWhiteSpace (toLowerCase s) = toLowerCase (dropWhile isWhiteSpace s)"
  by (induction s) (simp_all add: toLowerCase_def isWhiteSpace_toLowerChar)

lemma trim_toLowerCase: "trim (toLowerCase s) = toLowerCase (trim s)"
proof -
  have r: "rev (toLowerCase t) = toLowerCase (rev t)" for t
    by (simp add: toLowerCase_def rev_map)
  show ?thesis
    unfolding trim_def by (simp only: dropWhile_ws_toLowerCase r)
qed

lemma dropWhile_idem: "dropWhile P (dropWhile P xs) = dropWhile P xs"
  by (induction xs) simp_all

lemma rev_dropWhile_rev_prefix: "\<exists>zs. ys = rev (dropWhile Q (rev ys)) @ zs"
proof -
  have "rev ys = takeWhile Q (rev ys) @ dropWhile Q (rev ys)" by simp
  then have "rev (rev ys) = rev (takeWhile Q (rev ys) @ dropWhile Q (rev ys))" by (rule arg_cong)
  then have "ys = rev (dropWhile Q (rev ys)) @ rev (takeWhile Q (rev ys))"
    by (simp only: rev_rev_ident rev_append)
  then show ?thesis ..
qed

lemma dropWhile_rev_dropWhile:
  "dropWhile P (rev (dropWhile Q (rev (dropWhile P xs)))) = rev (dropWhile Q (rev (dropWhile P xs)))"
proof -
  let ?ys = "dropWhile P xs"
  let ?t = "rev (dropWhile Q (rev ?ys))"
  obtain zs where zs: "?ys = ?t @ zs"
    using rev_dropWhile_rev_prefix by blast
  show ?thesis
  proof (cases ?t)
    case Nil
    then show ?thesis by (simp only: dropWhile.simps)
  next
    case (Cons y ys')
    with zs have ys: "?ys = y # ys' @ zs" by simp
    then have "?ys \<noteq> []" by simp
    then have "\<not> P (hd ?ys)" by (rule hd_dropWhile)
    with ys have "\<not> P y" by simp
    then have "dropWhile P (y # ys') = y # ys'" by simp
    with Cons show ?thesis by (simp only:)
  qed
qed

lemma trim_idem: "trim (trim s) = trim s"
  unfolding trim_def
  by (simp add: dropWhile_rev_dropWhile dropWhile_idem)

lemma trim_no_leading: "trim s \<noteq> [] \<Longrightarrow> \<not> isWhiteSpace (hd (trim s))"
proof -
  assume ne: "trim s \<noteq> []"
  have "dropWhile isWhiteSpace (trim s) = trim s"
    unfolding trim_def by (rule dropWhile_rev_dropWhile)
  with ne show ?thesis
    by (metis hd_dropWhile)
qed

lemma trim_no_trailing: "trim s \<noteq> [] \<Longrightarrow> \<not> isWhiteSpace (last (trim s))"
proof -
  assume ne: "trim s \<noteq> []"
  let ?d = "dropWhile isWhiteSpace (rev (dropWhile isWhiteSpace s))"
  from ne have "?d \<noteq> []" by (simp add: trim_def)
  then have "\<not> isWhiteSpace (hd ?d)" by (rule hd_dropWhile)
  moreover have "last (trim s) = hd ?d"
    using \<open>?d \<noteq> []\<close> by (simp add: trim_def last_rev)
  ultimately show ?thesis by simp
qed

lemma sanitizeEmail_idem: "sanitizeEmail (sanitizeEmail s) = sanitizeEmail s"
  by (simp add: sanitizeEmail_def trim_toLowerCase trim_idem toLowerCase_idem)

section \<open>Properties of the validators\<close>

lemma regexTest_Lit: "regexTest (Lit c # r) s \<longleftrightarrow> (\<exists>v. s = c # v \<and> regexTest r v)"
  by (cases s) auto

lemma regexTest_AtLeast_0:
  "regexTest (AtLeast 0 C # r) s \<longleftrightarrow> (\<exists>u v. s = u @ v \<and> list_all C u \<and> regexTest r v)"
proof (induction s)
  case Nil
  show ?case by simp
next
  case (Cons x xs)
  show ?case (is "?L = ?R")
  proof
    assume ?L
    then consider "C x" "regexTest (AtLeast 0 C # r) xs" | "regexTest r (x # xs)"
      by auto
    then show ?R
    proof cases
      case 1
      with Cons.IH obtain u v where "xs = u @ v" "list_all C u" "regexTest r v" by blast
      with 1 have "x # xs = (x # u) @ v \<and> list_all C (x # u) \<and> regexTest r v" by simp
      then show ?thesis by blast
    next
      case 2
      then have "x # xs = [] @ (x # xs) \<and> list_all C [] \<and> regexTest r (x # xs)" by simp
      then show ?thesis by blast
    qed
  next
    assume ?R
    then obtain u v where uv: "x # xs = u @ v" "list_all C u" "regexTest r v" by blast
    show ?L
    proof (cases u)
      case Nil
      with uv have "regexTest r (x # xs)" by simp
      then show ?thesis by simp
    next
      case (Cons y ys)
      with uv have "C x" "xs = ys @ v" "list_all C ys" by simp_all
      with uv(3) Cons.IH have "regexTest (AtLeast 0 C # r) xs" by blast
      with \<open>C x\<close> show ?thesis by simp
    qed
  qed
qed

lemma regexTest_AtLeast:
  "regexTest (AtLeast n C # r) s \<longleftrightarrow>
     (\<exists>u v. s = u @ v \<and> n \<le> length u \<and> list_all C u \<and> regexTest r v)"
proof (induction n arbitrary: s)
  case 0
  show ?case by (simp add: regexTest_AtLeast_0)
next
  case (Suc n)
  show ?case (is "?L = ?R")
  proof (cases s)
    case Nil
    then show ?thesis by simp
  next
    case (Cons x xs)
    show ?thesis
    proof
      assume ?L
      with Cons have "C x" "regexTest (AtLeast n C # r) xs" by simp_all
      with Suc.IH obtain u v where "xs = u @ v" "n \<le> length u" "list_all C u" "regexTest r v"
        by blast
      with \<open>C x\<close> Cons
      have "s = (x # u) @ v \<and> Suc n \<le> length (x # u) \<and> list_all C (x # u) \<and> regexTest r v"
        by simp
      then show ?R by blast
    next
      assume ?R
      then obtain u v where uv: "s = u @ v" "Suc n \<le> length u" "list_all C u" "regexTest r v"
        by blast
      then obtain y ys where u: "u = y # ys" by (cases u) auto
      with uv Cons have "C x" "xs = ys @ v" "n \<le> length ys" "list_all C ys" by simp_all
      with uv(4) Suc.IH have "regexTest (AtLeast n C # r) xs" by blast
      with \<open>C x\<close> Cons show ?L by simp
    qed
  qed
qed

lemma regexTest_EMAIL_REGEX:
  "regexTest EMAIL_REGEX s \<longleftrightarrow>
     (\<exists>l d t. s = l @ ''@'' @ d @ ''.'' @ t
        \<and> 1 \<le> length l \<and> list_all isLocalChar l
        \<and> 1 \<le> length d \<and> list_all isDomainChar d
        \<and> 2 \<le> length t \<and> list_all isAsciiLetter t)"
  unfolding EMAIL_REGEX_def
  by (simp add: regexTest_AtLeast regexTest_Lit) blast

lemma firstFailure_find:
  "firstFailure f rules v =
     map_option (\<lambda>rule. \<lparr>fe_field = f, fe_message = rule_message rule, fe_type = rule_type rule\<rparr>)
       (find (\<lambda>rule. \<not> rule_test rule v) rules)"
  by (induction rules) simp_all

lemma validateField_Email:
  "validateField Email v =
     (if length (trim v) = 0
      then Some \<lparr>fe_field = Email, fe_message = ''Email is required'', fe_type = Required\<rparr>
      else if \<not> regexTest EMAIL_REGEX (trim v)
      then Some \<lparr>fe_field = Email, fe_message = ''Please enter a valid email address'',
                 fe_type = Format\<rparr>
      else if length (trim v) > 254
      then Some \<lparr>fe_field = Email, fe_message = ''Email must not exceed 254 characters'',
                 fe_type = MaxLength\<rparr>
      else None)"
  by (simp add: validateField_def emailRules_def)

lemma validateField_Password:
  "validateField Password v =
     (if length v = 0
      then Some \<lparr>fe_field = Password, fe_message = ''Password is required'', fe_type = Required\<rparr>
      else if length v < 8
      then Some \<lparr>fe_field = Password, fe_message = ''Password must be at least 8 characters'',
                 fe_type = MinLength\<rparr>
      else if length v > 128
      then Some \<lparr>fe_field = Password, fe_message = ''Password must not exceed 128 characters'',
                 fe_type = MaxLength\<rparr>
      else None)"
  by (simp add: validateField_def passwordRules_def not_le not_less)

lemma validateField_RememberMe: "validateField RememberMe v = None"
  by (simp add: validateField_def)

lemma validateField_field: "validateField f v = Some e \<Longrightarrow> fe_field e = f"
  by (cases f) (auto simp: validateField_Email validateField_Password validateField_RememberMe
      split: if_splits)

lemma vs_errors_validateLoginForm:
  "vs_errors (validateLoginForm vals) =
     (case validateField Email (email vals) of None \<Rightarrow> [] | Some e \<Rightarrow> [e])
     @ (case validateField Password (password vals) of None \<Rightarrow> [] | Some e \<Rightarrow> [e])"
  by (simp add: validateLoginForm_def pushIfError_def Let_def split: option.splits)

lemma vs_isValid_validateLoginForm:
  "vs_isValid (validateLoginForm vals) = (vs_errors (validateLoginForm vals) = [])"
  by (simp add: validateLoginForm_def Let_def)

lemma isValid_iff:
  "vs_isValid (validateLoginForm vals) \<longleftrightarrow>
     validateField Email (email vals) = None \<and> validateField Password (password vals) = None"
  by (simp add: vs_isValid_validateLoginForm vs_errors_validateLoginForm split: option.splits)

section \<open>Properties of the state machine\<close>

lemma run_snoc: "run opts (evs @ [ev]) = step opts (run opts evs) ev"
  by (simp add: run_def)


subsection \<open>The stored email is sanitized\<close>










subsection \<open>Submit\<close>

lemma handleSubmit_flag_set: "isSubmittingRef s \<Longrightarrow> handleSubmit opts s = s"
  by (simp add: handleSubmit_def)

lemma handleSubmit_invalid:
  "\<not> isSubmittingRef s \<Longrightarrow> \<not> vs_isValid (validateLoginForm (formValues s)) \<Longrightarrow>
   handleSubmit opts s =
     s\<lparr>errors := vs_errors (validateLoginForm (formValues s)),
       touched := [Email \<mapsto> True, Password \<mapsto> True, RememberMe \<mapsto> True],
       submissionState := Error\<rparr>"
  by (simp add: handleSubmit_def Let_def)

lemma handleSubmit_valid:
  "\<not> isSubmittingRef s \<Longrightarrow> vs_isValid (validateLoginForm (formValues s)) \<Longrightarrow>
   handleSubmit opts s =
     s\<lparr>errors := vs_errors (validateLoginForm (formValues s)),
       touched := [Email \<mapsto> True, Password \<mapsto> True, RememberMe \<mapsto> True],
       isSubmittingRef := True, submissionState := Submitting, authError := None,
       loginCalls := loginCalls s @ [\<lparr>email = email (formValues s), password = password (formValues s),
                                rememberMe = rememberMe (formValues s)\<rparr>],
       pending := pending s @ [\<lparr>email = email (formValues s), password = password (formValues s),
                                rememberMe = rememberMe (formValues s)\<rparr>]\<rparr>"
  by (simp add: handleSubmit_def Let_def)

subsection \<open>At most one pending call\<close>

lemma pending_handleChange: "pending (handleChange opts inp s) = pending s"
  by (simp add: handleChange_def Let_def split: option.splits)

lemma flag_handleChange: "isSubmittingRef (handleChange opts inp s) = isSubmittingRef s"
  by (simp add: handleChange_def Let_def split: option.splits)

lemma pending_handleBlur: "pending (handleBlur opts f s) = pending s"
  by (simp add: handleBlur_def Let_def split: option.splits)

lemma flag_handleBlur: "isSubmittingRef (handleBlur opts f s) = isSubmittingRef s"
  by (simp add: handleBlur_def Let_def split: option.splits)

lemma onePending_handleSubmit: "onePending s \<Longrightarrow> onePending (handleSubmit opts s)"
  by (auto simp: onePending_def handleSubmit_def Let_def split: if_splits)

lemma step_onePending:
  assumes "onePending s" and "ev = Reset \<longrightarrow> pending s = []"
  shows "onePending (step opts s ev)"
proof (cases ev)
  case (Change inp)
  then show ?thesis
    using assms(1) by (simp add: onePending_def pending_handleChange flag_handleChange)
next
  case (Blur f)
  then show ?thesis
    using assms(1) by (simp add: onePending_def pending_handleBlur flag_handleBlur)
next
  case Submit
  then show ?thesis using assms(1) by (simp add: onePending_handleSubmit)
next
  case Reset
  then show ?thesis using assms by (simp add: onePending_def resetForm_def)
next
  case (Resolve i r)
  then show ?thesis
    using assms(1)
    by (auto simp: onePending_def loginResolved_def settle_def split: if_splits)
next
  case (Reject i e)
  then show ?thesis
    using assms(1)
    by (auto simp: onePending_def loginRejected_def settle_def split: if_splits)
qed

lemma foldl_onePending:
  "onePending s \<Longrightarrow> resetsWhenSettled opts s evs \<Longrightarrow> onePending (foldl (step opts) s evs)"
proof (induction evs arbitrary: s)
  case Nil
  then show ?case by simp
next
  case (Cons ev evs)
  from Cons.prems have "onePending (step opts s ev)"
    by (intro step_onePending) simp_all
  moreover from Cons.prems have "resetsWhenSettled opts (step opts s ev) evs" by simp
  ultimately show ?case
    using Cons.IH by simp
qed

lemma run_onePending:
  "resetsWhenSettled opts initialState evs \<Longrightarrow> onePending (run opts evs)"
  unfolding run_def
  by (rule foldl_onePending) (simp_all add: onePending_def initialState_def)

lemma loginCalls_step: "ev \<noteq> Submit \<Longrightarrow> loginCalls (step opts s ev) = loginCalls s"
  by (cases ev)
    (simp_all add: handleChange_def handleBlur_def resetForm_def loginResolved_def
      loginRejected_def Let_def split: option.splits)

section \<open>Claims\<close>

text \<open>
  C1. \<open>isValidRedirectUrl url\<close> holds exactly when \<open>url\<close> is neither empty nor white
  space only, does not begin with \<open>http://\<close>, \<open>https://\<close>, \<open>//\<close>, \<open>javascript:\<close> or
  \<open>data:\<close>, begins with \<open>/\<close>, and is one of the allow-list roots \<open>/dashboard\<close>,
  \<open>/profile\<close>, \<open>/settings\<close>, \<open>/\<close> or begins with one of them followed by \<open>/\<close>.
  \<open>/dashboard\<close> and \<open>/dashboard/overview\<close> are accepted; \<open>http://evil.com\<close>,
  \<open>//evil.com\<close>, \<open>javascript:alert(1)\<close>, \<open>/admin\<close> and the empty string are rejected.
\<close>

theorem C1_isValidRedirectUrl:
  "(isValidRedirectUrl url \<longleftrightarrow>
      \<not> (url = '''' \<or> trim url = '''')
      \<and> \<not> startsWith url ''http://'' \<and> \<not> startsWith url ''https://'' \<and> \<not> startsWith url ''//''
      \<and> \<not> startsWith url ''javascript:'' \<and> \<not> startsWith url ''data:''
      \<and> startsWith url ''/''
      \<and> (url = ''/dashboard'' \<or> url = ''/profile'' \<or> url = ''/settings'' \<or> url = ''/''
         \<or> startsWith url ''/dashboard/'' \<or> startsWith url ''/profile/''
         \<or> startsWith url ''/settings/'' \<or> startsWith url ''//''))
   \<and> allowedPaths = [''/dashboard'', ''/profile'', ''/settings'', ''/'']
   \<and> isValidRedirectUrl ''/dashboard'' \<and> isValidRedirectUrl ''/dashboard/overview''
   \<and> \<not> isValidRedirectUrl ''http://evil.com'' \<and> \<not> isValidRedirectUrl ''//evil.com''
   \<and> \<not> isValidRedirectUrl ''javascript:alert(1)'' \<and> \<not> isValidRedirectUrl ''/admin''
   \<and> \<not> isValidRedirectUrl ''''"
proof -
  have iff: "isValidRedirectUrl url \<longleftrightarrow>
      \<not> (url = '''' \<or> trim url = '''')
      \<and> \<not> startsWith url ''http://'' \<and> \<not> startsWith url ''https://'' \<and> \<not> startsWith url ''//''
      \<and> \<not> startsWith url ''javascript:'' \<and> \<not> startsWith url ''data:''
      \<and> startsWith url ''/''
      \<and> (url = ''/dashboard'' \<or> url = ''/profile'' \<or> url = ''/settings'' \<or> url = ''/''
         \<or> startsWith url ''/dashboard/'' \<or> startsWith url ''/profile/''
         \<or> startsWith url ''/settings/'' \<or> startsWith url ''//'')"
    unfolding isValidRedirectUrl_def allowedPaths_def by auto
  have e1: "isValidRedirectUrl ''/dashboard''" by code_simp
  have e2: "isValidRedirectUrl ''/dashboard/overview''" by code_simp
  have e3: "\<not> isValidRedirectUrl ''http://evil.com''" by code_simp
  have e4: "\<not> isValidRedirectUrl ''//evil.com''" by code_simp
  have e5: "\<not> isValidRedirectUrl ''javascript:alert(1)''" by code_simp
  have e6: "\<not> isValidRedirectUrl ''/admin''" by code_simp
  have e7: "\<not> isValidRedirectUrl ''''" by code_simp
  show ?thesis
    using iff e1 e2 e3 e4 e5 e6 e7 by (simp only: allowedPaths_def simp_thms)
qed

text \<open>
  C5. \<open>validateField\<close> applies the rules of the field in their order and returns the
  error of the first rule that fails, or nothing when all pass. For \<open>email\<close>: required
  (the trimmed value is not empty, message \<open>Email is required\<close>), then format (the
  trimmed value matches the regular expression), then maxLength (the trimmed length is at
  most 254). For \<open>password\<close>: required (length above 0, message
  \<open>Password is required\<close>), then minLength (at least 8), then maxLength (at most 128).
  For the remaining field, \<open>rememberMe\<close>, no rule applies and the result is nothing.
  The examples of the claim follow, \<open>'a'.repeat(n)\<close> being \<open>replicate n CHR ''a''\<close>.
  In general the result is built from the first rule of the field's list whose test
  fails. The regular expression accepts exactly the strings made of a non-empty local
  part, \<open>@\<close>, a non-empty domain part, a dot and at least two letters.
\<close>

theorem C5_validateField:
  "validateField Email v =
     (if length (trim v) = 0
      then Some \<lparr>fe_field = Email, fe_message = ''Email is required'', fe_type = Required\<rparr>
      else if \<not> regexTest EMAIL_REGEX (trim v)
      then Some \<lparr>fe_field = Email, fe_message = ''Please enter a valid email address'',
                 fe_type = Format\<rparr>
      else if length (trim v) > 254
      then Some \<lparr>fe_field = Email, fe_message = ''Email must not exceed 254 characters'',
                 fe_type = MaxLength\<rparr>
      else None)
   \<and> validateField Password v =
     (if length v = 0
      then Some \<lparr>fe_field = Password, fe_message = ''Password is required'', fe_type = Required\<rparr>
      else if length v < 8
      then Some \<lparr>fe_field = Password, fe_message = ''Password must be at least 8 characters'',
                 fe_type = MinLength\<rparr>
      else if length v > 128
      then Some \<lparr>fe_field = Password, fe_message = ''Password must not exceed 128 characters'',
                 fe_type = MaxLength\<rparr>
      else None)
   \<and> validateField RememberMe v = None
   \<and> map_option fe_type (validateField Email '''') = Some Required
   \<and> map_option fe_type (validateField Email ''not-an-email'') = Some Format
   \<and> map_option fe_type (validateField Email (replicate 250 CHR ''a'' @ ''@b.com'')) = Some MaxLength
   \<and> validateField Email ''user@example.com'' = None
   \<and> map_option fe_type (validateField Password '''') = Some Required
   \<and> map_option fe_type (validateField Password ''short'') = Some MinLength
   \<and> map_option fe_type (validateField Password (replicate 129 CHR ''a'')) = Some MaxLength
   \<and> validateField Password (replicate 8 CHR ''a'') = None
   \<and> validateField f v =
       map_option (\<lambda>rule. \<lparr>fe_field = f, fe_message = rule_message rule, fe_type = rule_type rule\<rparr>)
         (find (\<lambda>rule. \<not> rule_test rule v)
            (if f = Email then emailRules else if f = Password then passwordRules else []))
   \<and> (regexTest EMAIL_REGEX w \<longleftrightarrow>
        (\<exists>l d t. w = l @ ''@'' @ d @ ''.'' @ t
           \<and> 1 \<le> length l \<and> list_all isLocalChar l
           \<and> 1 \<le> length d \<and> list_all isDomainChar d
           \<and> 2 \<le> length t \<and> list_all isAsciiLetter t))"
proof -
  have g: "validateField f v =
       map_option (\<lambda>rule. \<lparr>fe_field = f, fe_message = rule_message rule, fe_type = rule_type rule\<rparr>)
         (find (\<lambda>rule. \<not> rule_test rule v)
            (if f = Email then emailRules else if f = Password then passwordRules else []))"
    by (simp only: validateField_def Let_def firstFailure_find)
  have e1: "map_option fe_type (validateField Email '''') = Some Required" by code_simp
  have e2: "map_option fe_type (validateField Email ''not-an-email'') = Some Format" by code_simp
  have e3: "map_option fe_type (validateField Email (replicate 250 CHR ''a'' @ ''@b.com'')) = Some MaxLength"
    by code_simp
  have e4: "validateField Email ''user@example.com'' = None" by code_simp
  have e5: "map_option fe_type (validateField Password '''') = Some Required" by code_simp
  have e6: "map_option fe_type (validateField Password ''short'') = Some MinLength" by code_simp
  have e7: "map_option fe_type (validateField Password (replicate 129 CHR ''a'')) = Some MaxLength"
    by code_simp
  have e8: "validateField Password (replicate 8 CHR ''a'') = None" by code_simp
  show ?thesis
    by (intro conjI validateField_Email validateField_Password validateField_RememberMe
        e1 e2 e3 e4 e5 e6 e7 e8 g regexTest_EMAIL_REGEX)
qed

text \<open>
  C6. \<open>validateLoginForm\<close> validates the email and the password field, both always,
  and never \<open>rememberMe\<close>: its errors are the email error, if any, followed by the
  password error, if any, and do not depend on \<open>rememberMe\<close>. So there is at most one
  error per field, at most two in all, and \<open>isValid\<close> holds exactly when there is no
  error. Two empty fields give two errors, one per field, and \<open>isValid = false\<close>;
  \<open>user@example.com\<close> with \<open>password123\<close> gives no error and \<open>isValid = true\<close>.
\<close>

theorem C6_validateLoginForm:
  "vs_errors (validateLoginForm vals) =
     (case validateField Email (email vals) of None \<Rightarrow> [] | Some e \<Rightarrow> [e])
     @ (case validateField Password (password vals) of None \<Rightarrow> [] | Some e \<Rightarrow> [e])
   \<and> validateLoginForm (vals\<lparr>rememberMe := b\<rparr>) = validateLoginForm vals
   \<and> length (filter (\<lambda>e. fe_field e = f) (vs_errors (validateLoginForm vals))) \<le> 1
   \<and> length (vs_errors (validateLoginForm vals)) \<le> 2
   \<and> vs_isValid (validateLoginForm vals) = (vs_errors (validateLoginForm vals) = [])
   \<and> validateLoginForm \<lparr>email = '''', password = '''', rememberMe = r\<rparr> =
       \<lparr>vs_errors =
          [\<lparr>fe_field = Email, fe_message = ''Email is required'', fe_type = Required\<rparr>,
           \<lparr>fe_field = Password, fe_message = ''Password is required'', fe_type = Required\<rparr>],
        vs_isValid = False, vs_touched = Map.empty\<rparr>
   \<and> validateLoginForm \<lparr>email = ''user@example.com'', password = ''password123'', rememberMe = r\<rparr> =
       \<lparr>vs_errors = [], vs_isValid = True, vs_touched = Map.empty\<rparr>"
proof -
  have rm: "validateLoginForm (vals\<lparr>rememberMe := b\<rparr>) = validateLoginForm vals"
    by (simp add: validateLoginForm_def)
  have per_field: "length (filter (\<lambda>e. fe_field e = f) (vs_errors (validateLoginForm vals))) \<le> 1"
  proof -
    have a: "fe_field e = Email" if "validateField Email (email vals) = Some e" for e
      using that by (rule validateField_field)
    have b: "fe_field e = Password" if "validateField Password (password vals) = Some e" for e
      using that by (rule validateField_field)
    show ?thesis
      by (auto simp: vs_errors_validateLoginForm split: option.splits dest!: a b)
  qed
  have two: "length (vs_errors (validateLoginForm vals)) \<le> 2"
    by (simp add: vs_errors_validateLoginForm split: option.splits)
  have v1: "validateField Email '''' =
      Some \<lparr>fe_field = Email, fe_message = ''Email is required'', fe_type = Required\<rparr>"
    by code_simp
  have v2: "validateField Password '''' =
      Some \<lparr>fe_field = Password, fe_message = ''Password is required'', fe_type = Required\<rparr>"
    by code_simp
  have v3: "validateField Email ''user@example.com'' = None" by code_simp
  have v4: "validateField Password ''password123'' = None" by code_simp
  have x1: "validateLoginForm \<lparr>email = '''', password = '''', rememberMe = r\<rparr> =
       \<lparr>vs_errors =
          [\<lparr>fe_field = Email, fe_message = ''Email is required'', fe_type = Required\<rparr>,
           \<lparr>fe_field = Password, fe_message = ''Password is required'', fe_type = Required\<rparr>],
        vs_isValid = False, vs_touched = Map.empty\<rparr>"
    by (simp add: validateLoginForm_def pushIfError_def v1 v2)
  have x2: "validateLoginForm \<lparr>email = ''user@example.com'', password = ''password123'', rememberMe = r\<rparr> =
       \<lparr>vs_errors = [], vs_isValid = True, vs_touched = Map.empty\<rparr>"
    by (simp add: validateLoginForm_def pushIfError_def v3 v4)
  show ?thesis
    by (intro conjI vs_errors_validateLoginForm rm per_field two vs_isValid_validateLoginForm x1 x2)
qed

text \<open>
  C8. \<open>sanitizeEmail\<close> is a total function of its argument alone, equal to trimming
  white space from both ends and then lower-casing. It is idempotent, and its result
  neither starts nor ends with white space and holds no upper-case ASCII letter.
\<close>

theorem C8_sanitizeEmail:
  "sanitizeEmail s = toLowerCase (trim s)
   \<and> sanitizeEmail (sanitizeEmail s) = sanitizeEmail s
   \<and> trim (sanitizeEmail s) = sanitizeEmail s
   \<and> (sanitizeEmail s \<noteq> [] \<longrightarrow>
        \<not> isWhiteSpace (hd (sanitizeEmail s)) \<and> \<not> isWhiteSpace (last (sanitizeEmail s)))
   \<and> (\<forall>c \<in> set (sanitizeEmail s). \<not> isUpperAscii c)"
proof -
  have t: "trim (sanitizeEmail s) = sanitizeEmail s"
    by (simp add: sanitizeEmail_def trim_toLowerCase trim_idem)
  have e: "sanitizeEmail s \<noteq> [] \<longrightarrow>
        \<not> isWhiteSpace (hd (sanitizeEmail s)) \<and> \<not> isWhiteSpace (last (sanitizeEmail s))"
    using trim_no_leading [of "sanitizeEmail s"] trim_no_trailing [of "sanitizeEmail s"]
    by (simp add: t)
  have u: "\<forall>c \<in> set (sanitizeEmail s). \<not> isUpperAscii c"
    by (auto simp: sanitizeEmail_def toLowerCase_def not_upper_toLowerChar)
  show ?thesis
    using t e u by (simp add: sanitizeEmail_idem) (simp add: sanitizeEmail_def)
qed

theorem C8_sanitizeEmail_witness:
  "sanitizeEmail ''  User@Example.COM  '' = ''user@example.com''
   \<and> sanitizeEmail ''user@example.com'' = ''user@example.com''
   \<and> \<not> isWhiteSpace (hd ''user@example.com'') \<and> \<not> isWhiteSpace (last ''user@example.com'')
   \<and> list_all (\<lambda>c. \<not> isUpperAscii c) ''user@example.com''"
proof -
  have v: "sanitizeEmail ''  User@Example.COM  '' = ''user@example.com''"
    by code_simp
  note th = C8_sanitizeEmail [of "''  User@Example.COM  ''", unfolded v]
  show ?thesis
    using v th [THEN conjunct2] by (simp add: list_all_iff)
qed

text \<open>
  C9 (as amended). \<open>getSafeRedirectUrl candidate default\<close> returns the candidate
  unchanged when it is defined and \<open>isValidRedirectUrl\<close> accepts it, and the supplied
  default unchanged, not validated, in every other case. So the result is the candidate
  exactly when the candidate is accepted or the default is that very string. The three
  examples of the claim follow. A call that omits the default takes \<open>/dashboard\<close> for it.

  As stated, with \<open>if and only if\<close>, the claim fails where the default is itself a rejected
  candidate: \<open>getSafeRedirectUrl('/home', '/home')\<close> returns \<open>/home\<close>, the candidate, which
  \<open>isValidRedirectUrl\<close> rejects.
\<close>

theorem C9_getSafeRedirectUrl:
  "getSafeRedirectUrl candidate (Some d) =
     (case candidate of
        None \<Rightarrow> d
      | Some u \<Rightarrow> if isValidRedirectUrl u then u else d)
   \<and> getSafeRedirectUrl (Some ''http://evil.com'') (Some ''/dashboard'') = ''/dashboard''
   \<and> getSafeRedirectUrl (Some ''/profile'') (Some ''/dashboard'') = ''/profile''
   \<and> getSafeRedirectUrl None (Some ''/home'') = ''/home''
   \<and> getSafeRedirectUrl candidate None = getSafeRedirectUrl candidate (Some ''/dashboard'')
   \<and> ((getSafeRedirectUrl (Some c) (Some d) = c) = (isValidRedirectUrl c \<or> d = c))"
proof -
  have g: "getSafeRedirectUrl k (Some d) =
     (case k of None \<Rightarrow> d | Some u \<Rightarrow> if isValidRedirectUrl u then u else d)" for k
    by (auto simp: getSafeRedirectUrl_def isValidRedirectUrl_def split: option.splits)
  have e1: "getSafeRedirectUrl (Some ''http://evil.com'') (Some ''/dashboard'') = ''/dashboard''"
    by code_simp
  have e2: "getSafeRedirectUrl (Some ''/profile'') (Some ''/dashboard'') = ''/profile''"
    by code_simp
  have e3: "getSafeRedirectUrl None (Some ''/home'') = ''/home''"
    by code_simp
  have dflt: "getSafeRedirectUrl candidate None = getSafeRedirectUrl candidate (Some ''/dashboard'')"
    by (simp add: getSafeRedirectUrl_def)
  have only_if: "(getSafeRedirectUrl (Some c) (Some d) = c) = (isValidRedirectUrl c \<or> d = c)"
    by (auto simp: g)
  show ?thesis by (intro conjI g e1 e2 e3 dflt only_if)
qed

theorem C9_counterexample:
  "getSafeRedirectUrl (Some ''/home'') (Some ''/home'') = ''/home''
   \<and> \<not> isValidRedirectUrl ''/home''"
  by code_simp

text \<open>
  C10. \<open>canSubmitForm values isSubmitting\<close> is true exactly when \<open>isSubmitting\<close> is
  false and \<open>validateLoginForm values\<close> is valid; it is false whenever \<open>isSubmitting\<close>
  is true, whatever the values. The hook's \<open>canSubmit\<close> is \<open>canSubmitForm\<close> of the stored
  values and of \<open>submissionState === 'submitting'\<close>.
\<close>

theorem C10_canSubmitForm:
  "canSubmitForm vals isSubmitting = (\<not> isSubmitting \<and> vs_isValid (validateLoginForm vals))
   \<and> canSubmitForm vals True = False
   \<and> canSubmit s = canSubmitForm (formValues s) (submissionState s = Submitting)"
  by (simp add: canSubmitForm_def canSubmit_def)



text \<open>
  C2 (as amended). In every state a session reaches by events among which a reset is
  taken only when no call is pending, at most one call of the authentication client is
  outstanding, and the re-entrancy flag is set exactly when one is. In any state at all, a
  submit step taken while the flag is set leaves the whole state as it is: it calls
  nothing, changes no submission state and queues nothing, and a step other than submit
  never calls the client. So two submit steps in a row, the first on a clear flag and a
  valid form, call the client exactly once.

  As stated, the claim fails: \<open>resetForm\<close> clears the flag while a call is pending, and a
  valid submit after it starts a second call beside the first.
\<close>

theorem C2_single_outstanding_call:
  assumes "resetsWhenSettled opts initialState evs"
    and "s = run opts evs"
  shows "length (pending s) \<le> 1
   \<and> (isSubmittingRef s \<longleftrightarrow> pending s \<noteq> [])
   \<and> (isSubmittingRef t \<longrightarrow> handleSubmit opts t = t)
   \<and> (ev \<noteq> Submit \<longrightarrow> loginCalls (step opts t ev) = loginCalls t)
   \<and> (\<not> isSubmittingRef s \<and> vs_isValid (validateLoginForm (formValues s)) \<longrightarrow>
        loginCalls (handleSubmit opts (handleSubmit opts s)) =
          loginCalls s @ [\<lparr>email = email (formValues s), password = password (formValues s),
                           rememberMe = rememberMe (formValues s)\<rparr>]
        \<and> pending (handleSubmit opts (handleSubmit opts s)) =
          [\<lparr>email = email (formValues s), password = password (formValues s),
            rememberMe = rememberMe (formValues s)\<rparr>])"
proof -
  have inv: "onePending s"
    unfolding assms(2) using assms(1) by (rule run_onePending)
  have a: "length (pending s) \<le> 1" and b: "isSubmittingRef s \<longleftrightarrow> pending s \<noteq> []"
    using inv by (auto simp: onePending_def split: if_splits)
  have c: "isSubmittingRef t \<longrightarrow> handleSubmit opts t = t"
    by (simp add: handleSubmit_flag_set)
  have d: "ev \<noteq> Submit \<longrightarrow> loginCalls (step opts t ev) = loginCalls t"
    by (simp add: loginCalls_step)
  have e: "loginCalls (handleSubmit opts (handleSubmit opts s)) =
          loginCalls s @ [\<lparr>email = email (formValues s), password = password (formValues s),
                           rememberMe = rememberMe (formValues s)\<rparr>]
        \<and> pending (handleSubmit opts (handleSubmit opts s)) =
          [\<lparr>email = email (formValues s), password = password (formValues s),
            rememberMe = rememberMe (formValues s)\<rparr>]"
    if f: "\<not> isSubmittingRef s" and v: "vs_isValid (validateLoginForm (formValues s))"
  proof -
    have p: "pending s = []" using b f by simp
    have once: "isSubmittingRef (handleSubmit opts s)"
      by (simp add: handleSubmit_valid [OF f v])
    show ?thesis
      unfolding handleSubmit_flag_set [OF once]
      by (simp add: handleSubmit_valid [OF f v] p)
  qed
  show ?thesis
    using a b c d e by blast
qed

theorem C2_single_outstanding_call_witness:
  "resetsWhenSettled defaultOptions initialState
     [Change (EmailInput ''user@example.com''), Change (PasswordInput ''password123'')]
   \<and> length (pending (run defaultOptions
       [Change (EmailInput ''user@example.com''), Change (PasswordInput ''password123'')])) \<le> 1
   \<and> isSubmittingRef (run defaultOptions
       [Change (EmailInput ''user@example.com''), Change (PasswordInput ''password123''), Submit])
   \<and> handleSubmit defaultOptions (run defaultOptions
       [Change (EmailInput ''user@example.com''), Change (PasswordInput ''password123''), Submit])
     = run defaultOptions
       [Change (EmailInput ''user@example.com''), Change (PasswordInput ''password123''), Submit]
   \<and> loginCalls (handleSubmit defaultOptions (handleSubmit defaultOptions (run defaultOptions
       [Change (EmailInput ''user@example.com''), Change (PasswordInput ''password123'')])))
     = [\<lparr>email = ''user@example.com'', password = ''password123'', rememberMe = False\<rparr>]
   \<and> pending (handleSubmit defaultOptions (handleSubmit defaultOptions (run defaultOptions
       [Change (EmailInput ''user@example.com''), Change (PasswordInput ''password123'')])))
     = [\<lparr>email = ''user@example.com'', password = ''password123'', rememberMe = False\<rparr>]"
proof -
  let ?evs = "[Change (EmailInput ''user@example.com''), Change (PasswordInput ''password123'')]"
  let ?t = "run defaultOptions
       [Change (EmailInput ''user@example.com''), Change (PasswordInput ''password123''), Submit]"
  have h: "resetsWhenSettled defaultOptions initialState ?evs" by code_simp
  have f: "\<not> isSubmittingRef (run defaultOptions ?evs)" by code_simp
  have v: "vs_isValid (validateLoginForm (formValues (run defaultOptions ?evs)))" by code_simp
  have l: "loginCalls (run defaultOptions ?evs) = []" by code_simp
  have e: "formValues (run defaultOptions ?evs) =
      \<lparr>email = ''user@example.com'', password = ''password123'', rememberMe = False\<rparr>"
    by code_simp
  have g: "isSubmittingRef ?t" by code_simp
  show ?thesis
    using C2_single_outstanding_call [OF h refl, of ?t Reset] h f v g
    by (simp add: l e)
qed

theorem C2_counterexample:
  "\<not> length (pending (run defaultOptions
     [Change (EmailInput ''user@example.com''), Change (PasswordInput ''password123''), Submit,
      Reset,
      Change (EmailInput ''user@example.com''), Change (PasswordInput ''password123''), Submit]))
    \<le> 1"
  by code_simp

text \<open>
  C3 (as amended). On form values that \<open>validateLoginForm\<close> rejects, a submit step never
  calls \<open>login\<close> and never enters \<open>submitting\<close>. When the re-entrancy flag is clear it
  sets the submission state to \<open>error\<close>, stores the validation errors and marks all three
  fields touched, in the one step; when the flag is set the step changes nothing.

  As stated, the claim fails on a submit taken while a call is pending and the email has
  been emptied: the state stays \<open>submitting\<close> and is not set to \<open>error\<close>.
\<close>

theorem C3_submit_invalid:
  assumes "\<not> vs_isValid (validateLoginForm (formValues s))"
  shows "loginCalls (handleSubmit opts s) = loginCalls s
   \<and> pending (handleSubmit opts s) = pending s
   \<and> (submissionState s \<noteq> Submitting \<longrightarrow> submissionState (handleSubmit opts s) \<noteq> Submitting)
   \<and> (\<not> isSubmittingRef s \<longrightarrow>
        handleSubmit opts s =
          s\<lparr>errors := vs_errors (validateLoginForm (formValues s)),
            touched := [Email \<mapsto> True, Password \<mapsto> True, RememberMe \<mapsto> True],
            submissionState := Error\<rparr>)
   \<and> (isSubmittingRef s \<longrightarrow> handleSubmit opts s = s)"
proof (cases "isSubmittingRef s")
  case True
  then show ?thesis by (simp add: handleSubmit_flag_set)
next
  case False
  then show ?thesis by (simp add: handleSubmit_invalid [OF False assms])
qed

theorem C3_submit_invalid_witness:
  "\<not> vs_isValid (validateLoginForm (formValues initialState))
   \<and> \<not> isSubmittingRef initialState
   \<and> loginCalls (handleSubmit defaultOptions initialState) = []
   \<and> submissionState (handleSubmit defaultOptions initialState) = Error
   \<and> errors (handleSubmit defaultOptions initialState) =
       [\<lparr>fe_field = Email, fe_message = ''Email is required'', fe_type = Required\<rparr>,
        \<lparr>fe_field = Password, fe_message = ''Password is required'', fe_type = Required\<rparr>]
   \<and> touched (handleSubmit defaultOptions initialState) =
       [Email \<mapsto> True, Password \<mapsto> True, RememberMe \<mapsto> True]"
proof -
  have v: "\<not> vs_isValid (validateLoginForm (formValues initialState))" by code_simp
  have f: "\<not> isSubmittingRef initialState" by (simp add: initialState_def)
  have l: "loginCalls initialState = []" by (simp add: initialState_def)
  have e: "vs_errors (validateLoginForm (formValues initialState)) =
       [\<lparr>fe_field = Email, fe_message = ''Email is required'', fe_type = Required\<rparr>,
        \<lparr>fe_field = Password, fe_message = ''Password is required'', fe_type = Required\<rparr>]"
    by code_simp
  show ?thesis
    using C3_submit_invalid [OF v, of defaultOptions] v f by (simp add: l e)
qed

theorem C3_counterexample:
  "\<not> vs_isValid (validateLoginForm (formValues (run defaultOptions
       [Change (EmailInput ''user@example.com''), Change (PasswordInput ''password123''), Submit,
        Change (EmailInput '''')])))
   \<and> submissionState (handleSubmit defaultOptions (run defaultOptions
       [Change (EmailInput ''user@example.com''), Change (PasswordInput ''password123''), Submit,
        Change (EmailInput '''')])) \<noteq> Error"
  by code_simp

text \<open>
  C7. When the authentication client rejects a pending call with an \<open>AuthError\<close>, the
  machine clears the re-entrancy flag, stores that very error, moves to \<open>error\<close> and
  invokes the error callback, where the caller supplied one, with that very error: code,
  message and details are those of the collaborator. The session of the claim's example
  goes \<open>idle\<close>, \<open>submitting\<close>, \<open>error\<close> and stores the message
  \<open>Invalid email or password\<close>.
\<close>

theorem C7_login_rejected:
  assumes "i < length (pending s)"
  shows "isSubmittingRef (step opts s (Reject i authErr)) = False
   \<and> authError (step opts s (Reject i authErr)) = Some authErr
   \<and> submissionState (step opts s (Reject i authErr)) = Error
   \<and> onErrorCalls (step opts s (Reject i authErr)) =
       (if onError opts then onErrorCalls s @ [authErr] else onErrorCalls s)
   \<and> pending (step opts s (Reject i authErr)) = settle i (pending s)"
  using assms by (simp add: loginRejected_def)

theorem C7_login_rejected_witness:
  "0 < length (pending (run (defaultOptions\<lparr>onError := True\<rparr>)
       [Change (EmailInput ''user@example.com''), Change (PasswordInput ''password123''), Submit]))
   \<and> submissionState (run (defaultOptions\<lparr>onError := True\<rparr>) []) = Idle
   \<and> submissionState (run (defaultOptions\<lparr>onError := True\<rparr>)
       [Change (EmailInput ''user@example.com''), Change (PasswordInput ''password123''), Submit])
     = Submitting
   \<and> submissionState (run (defaultOptions\<lparr>onError := True\<rparr>)
       ([Change (EmailInput ''user@example.com''), Change (PasswordInput ''password123''), Submit]
        @ [Reject 0 \<lparr>ae_code = INVALID_CREDENTIALS, ae_message = ''Invalid email or password'',
                     ae_details = None\<rparr>]))
     = Error
   \<and> authError (run (defaultOptions\<lparr>onError := True\<rparr>)
       ([Change (EmailInput ''user@example.com''), Change (PasswordInput ''password123''), Submit]
        @ [Reject 0 \<lparr>ae_code = INVALID_CREDENTIALS, ae_message = ''Invalid email or password'',
                     ae_details = None\<rparr>]))
     = Some \<lparr>ae_code = INVALID_CREDENTIALS, ae_message = ''Invalid email or password'',
              ae_details = None\<rparr>
   \<and> onErrorCalls (run (defaultOptions\<lparr>onError := True\<rparr>)
       ([Change (EmailInput ''user@example.com''), Change (PasswordInput ''password123''), Submit]
        @ [Reject 0 \<lparr>ae_code = INVALID_CREDENTIALS, ae_message = ''Invalid email or password'',
                     ae_details = None\<rparr>]))
     = [\<lparr>ae_code = INVALID_CREDENTIALS, ae_message = ''Invalid email or password'',
         ae_details = None\<rparr>]
   \<and> \<not> isSubmittingRef (run (defaultOptions\<lparr>onError := True\<rparr>)
       ([Change (EmailInput ''user@example.com''), Change (PasswordInput ''password123''), Submit]
        @ [Reject 0 \<lparr>ae_code = INVALID_CREDENTIALS, ae_message = ''Invalid email or password'',
                     ae_details = None\<rparr>]))"
proof -
  let ?opts = "defaultOptions\<lparr>onError := True\<rparr>"
  let ?evs = "[Change (EmailInput ''user@example.com''), Change (PasswordInput ''password123''),
               Submit]"
  have p: "0 < length (pending (run ?opts ?evs))" by code_simp
  have i: "submissionState (run ?opts []) = Idle" by code_simp
  have u: "submissionState (run ?opts ?evs) = Submitting" by code_simp
  have c: "onErrorCalls (run ?opts ?evs) = []" by code_simp
  have o: "onError ?opts" by (simp add: defaultOptions_def)
  show ?thesis
    unfolding run_snoc
    using C7_login_rejected [OF p, of ?opts] p i u by (simp only: c o if_True append_Nil simp_thms)
qed

end
